theory Spec2Isabelle
  imports Complex_Main "HOL-Library.Sublist"
begin

section \<open>Data model\<close>

text \<open>
  The dashboard (\<^verbatim>\<open>app.py\<close>) fetches a series from the FRED provider, shapes it
  into a table with the columns \<^verbatim>\<open>Date\<close>, \<^verbatim>\<open>Value\<close>, \<^verbatim>\<open>Quarter\<close>, draws a chart
  of it and shows key statistics.

  Numbers. The \<^verbatim>\<open>Value\<close> column holds IEEE doubles. The values the provider stores
  are modelled as exact reals (present, finite numbers, as the rows of a shaped series
  are; rounding, overflow, the sign of zero and the absent marker are outside the model).
  The non-finite results that the program itself can create, by dividing by zero, are
  kept: \<open>npfloat\<close> is the result type of the numpy scalar operations.
\<close>

datatype npfloat = Fin real | PosInf | NegInf | NaN

fun is_finite :: "npfloat \<Rightarrow> bool" where
  "is_finite (Fin x) = True"
| "is_finite PosInf = False"
| "is_finite NegInf = False"
| "is_finite NaN = False"

text \<open>
  \<^verbatim>\<open>newest - oldest\<close> on two finite doubles; \<^verbatim>\<open>a / b\<close> on numpy doubles, which
  does not raise when \<open>b\<close> is zero (numpy reports a RuntimeWarning and returns
  \<^verbatim>\<open>inf\<close>, \<^verbatim>\<open>-inf\<close> or \<^verbatim>\<open>nan\<close>); \<^verbatim>\<open>q * 100\<close>. The reals have one
  zero, so a zero divisor is read as \<^verbatim>\<open>+0.0\<close>: which of the two infinities a division
  by zero gives is not a property of the model, only that the result is not finite.
\<close>

definition np_sub :: "real \<Rightarrow> real \<Rightarrow> real" where
  "np_sub a b = a - b"

definition np_truediv :: "real \<Rightarrow> real \<Rightarrow> npfloat" where
  "np_truediv a b =
     (if b \<noteq> 0 then Fin (a / b)
      else if 0 < a then PosInf
      else if a < 0 then NegInf
      else NaN)"

fun np_mul :: "npfloat \<Rightarrow> real \<Rightarrow> npfloat" where
  "np_mul (Fin a) c = Fin (a * c)"
| "np_mul PosInf c = (if 0 < c then PosInf else if c < 0 then NegInf else NaN)"
| "np_mul NegInf c = (if 0 < c then NegInf else if c < 0 then PosInf else NaN)"
| "np_mul NaN c = NaN"

text \<open>A timestamp of the provider's series, by its calendar fields.\<close>

record date =
  year :: nat
  month :: nat
  day :: nat

text \<open>Python's \<^verbatim>\<open>str\<close> of a natural number, as the f-strings print \<^verbatim>\<open>len(df)\<close>.\<close>

definition digit_char :: "nat \<Rightarrow> char" where
  "digit_char d = ''0123456789'' ! d"

function str_nat :: "nat \<Rightarrow> string" where
  "str_nat n = (if n < 10 then [digit_char n] else str_nat (n div 10) @ [digit_char (n mod 10)])"
  by pat_completeness auto
termination
  by (relation "measure id") auto

declare str_nat.simps [simp del]

text \<open>
  \<^verbatim>\<open>df['Date'].dt.to_period('Q').astype(str)\<close>: the calendar quarter of a timestamp,
  printed as \<^verbatim>\<open>2024Q1\<close>.
\<close>

definition to_period_Q :: "date \<Rightarrow> string" where
  "to_period_Q d = str_nat (year d) @ ''Q'' @ str_nat ((month d - 1) div 3 + 1)"

text \<open>One row of the table, and the dictionary \<^verbatim>\<open>get_economic_data\<close> returns.\<close>

record row =
  Date :: date
  Value :: real
  Quarter :: string

type_synonym dataframe = "row list"

record data_dict =
  data :: dataframe
  title :: string
  units :: string

text \<open>A Python exception, by its message (\<^verbatim>\<open>str(e)\<close>).\<close>

datatype exn = Exn string

fun str_exn :: "exn \<Rightarrow> string" where
  "str_exn (Exn m) = m"

section \<open>Logging (\<^verbatim>\<open>logger_config.py\<close>)\<close>

text \<open>The numeric levels of Python's \<^verbatim>\<open>logging\<close> module.\<close>

definition DEBUG :: nat where "DEBUG = 10"
definition INFO :: nat where "INFO = 20"
definition WARNING :: nat where "WARNING = 30"
definition ERROR :: nat where "ERROR = 40"
definition CRITICAL :: nat where "CRITICAL = 50"

text \<open>
  \<^verbatim>\<open>
  def setup_logging():
      if not os.path.exists('logs'):
          os.makedirs('logs')
      current_date = datetime.now().strftime('%Y-%m-%d')
      log_file = f'logs/app_{current_date}.log'
      logger = logging.getLogger('fred_dashboard')
      logger.setLevel(logging.DEBUG)
      if logger.hasHandlers():
          logger.handlers.clear()
      console_handler = logging.StreamHandler()
      console_handler.setLevel(logging.INFO)
      file_handler = RotatingFileHandler(log_file, maxBytes=10*1024*1024, backupCount=5)
      file_handler.setLevel(logging.DEBUG)
      console_format = logging.Formatter('%(levelname)s - %(message)s')
      file_format = logging.Formatter('%(asctime)s - %(name)s - %(levelname)s - %(filename)s:%(lineno)d - %(message)s')
      console_handler.setFormatter(console_format)
      file_handler.setFormatter(file_format)
      logger.addHandler(console_handler)
      logger.addHandler(file_handler)
      logger.info("Logging initialized")
      return logger
  \<close>
  The logger is the configuration the function builds: its own level and its handlers,
  each with a sink, a level and a format. The date is the one the clock shows when the
  function runs, already printed as \<^verbatim>\<open>YYYY-MM-DD\<close>.
\<close>

datatype sink = StreamHandler | RotatingFileHandler string nat nat

record handler =
  handler_sink :: sink
  handler_level :: nat
  formatter :: string

record logger =
  logger_name :: string
  logger_level :: nat
  handlers :: "handler list"

definition log_file :: "string \<Rightarrow> string" where
  "log_file current_date = ''logs/app_'' @ current_date @ ''.log''"

definition console_handler :: handler where
  "console_handler =
     \<lparr>handler_sink = StreamHandler, handler_level = INFO,
      formatter = ''%(levelname)s - %(message)s''\<rparr>"

definition file_handler :: "string \<Rightarrow> handler" where
  "file_handler current_date =
     \<lparr>handler_sink = RotatingFileHandler (log_file current_date) (10 * 1024 * 1024) 5,
      handler_level = DEBUG,
      formatter = ''%(asctime)s - %(name)s - %(levelname)s - %(filename)s:%(lineno)d - %(message)s''\<rparr>"

definition setup_logging :: "string \<Rightarrow> logger" where
  "setup_logging current_date =
     \<lparr>logger_name = ''fred_dashboard'', logger_level = DEBUG,
      handlers = [console_handler, file_handler current_date]\<rparr>"

text \<open>
  Python's dispatch of a record of level \<open>lvl\<close>: the logger drops it below its own
  level, and each handler takes it at or above the handler's level.
\<close>

definition receivers :: "logger \<Rightarrow> nat \<Rightarrow> sink list" where
  "receivers lg lvl =
     (if logger_level lg \<le> lvl
      then map handler_sink (filter (\<lambda>h. handler_level h \<le> lvl) (handlers lg))
      else [])"

text \<open>
  Emitting a record. The world of the logger is the clock (the date that
  \<^verbatim>\<open>datetime.now().strftime('%Y-%m-%d')\<close> would print), the lines on the console and
  the lines appended to files, each with the base file it went to. A handler takes a
  record at or above its level; the file handler writes to the base file it was built
  with (a roll-over by size renames the old file to a numbered backup and reopens the
  same base file), and neither handler reads the clock.
\<close>

record log_world =
  clock_date :: string
  console :: "(nat \<times> string) list"
  written :: "(string \<times> nat \<times> string) list"

definition handler_emit :: "handler \<Rightarrow> nat \<Rightarrow> string \<Rightarrow> log_world \<Rightarrow> log_world" where
  "handler_emit h lvl m lw =
     (if handler_level h \<le> lvl then
        (case handler_sink h of
           StreamHandler \<Rightarrow> lw\<lparr>console := console lw @ [(lvl, m)]\<rparr>
         | RotatingFileHandler f mb bc \<Rightarrow> lw\<lparr>written := written lw @ [(f, lvl, m)]\<rparr>)
      else lw)"

definition logger_emit :: "logger \<Rightarrow> nat \<Rightarrow> string \<Rightarrow> log_world \<Rightarrow> log_world" where
  "logger_emit lg lvl m lw =
     (if logger_level lg \<le> lvl then fold (\<lambda>h. handler_emit h lvl m) (handlers lg) lw else lw)"

text \<open>
  A run of \<^verbatim>\<open>setup_logging\<close>: the date is read from the clock once, and the first
  record is \<^verbatim>\<open>Logging initialized\<close>.
\<close>

definition setup_logging_run :: "log_world \<Rightarrow> logger \<times> log_world" where
  "setup_logging_run lw =
     (let lg = setup_logging (clock_date lw) in (lg, logger_emit lg INFO ''Logging initialized'' lw))"

section \<open>The interaction's effects\<close>

text \<open>
  What one run of the script does to the outside: the elements it puts on the page, the
  records it hands to the logger, and the requests it sends to the data provider.
\<close>

datatype px_kind = PxLine | PxBar | PxArea

record figure =
  kind :: px_kind
  fig_x :: string
  fig_y :: string
  fig_title :: string
  labels :: "(string \<times> string) list"
  markers :: bool
  color_discrete_sequence :: "string list option"
  xaxis_title :: string
  yaxis_title :: string
  template :: string
  height :: "nat option"

datatype ui_event =
    SetPageConfig string string
  | Title string
  | Markdown string
  | Error string
  | SidebarHeader string
  | SidebarSubheader string
  | SidebarMarkdown string
  | SidebarCaption string
  | SidebarSelectbox string "string list"
  | SidebarSlider string nat nat nat
  | PlotlyChart figure
  | RawData dataframe
  | Subheader string
  | Metric string npfloat string "npfloat option"
  | Caption string

record world =
  ui :: "ui_event list"
  logs :: "(nat \<times> string) list"
  requests :: "(string \<times> int \<times> int) list"

definition st :: "ui_event \<Rightarrow> world \<Rightarrow> world" where
  "st e w = w\<lparr>ui := ui w @ [e]\<rparr>"

definition logger_log :: "nat \<Rightarrow> string \<Rightarrow> world \<Rightarrow> world" where
  "logger_log lvl m w = w\<lparr>logs := logs w @ [(lvl, m)]\<rparr>"

abbreviation logger_info :: "string \<Rightarrow> world \<Rightarrow> world" where
  "logger_info \<equiv> logger_log INFO"

abbreviation logger_warning :: "string \<Rightarrow> world \<Rightarrow> world" where
  "logger_warning \<equiv> logger_log WARNING"

abbreviation logger_error :: "string \<Rightarrow> world \<Rightarrow> world" where
  "logger_error \<equiv> logger_log ERROR"

section \<open>\<^verbatim>\<open>calculate_change\<close>\<close>

text \<open>
  \<^verbatim>\<open>
  def calculate_change(data_dict):
      try:
          df = data_dict['data']
          if len(df) >= 2:
              oldest = df['Value'].iloc[0]
              newest = df['Value'].iloc[-1]
              pct_change = ((newest - oldest) / oldest) * 100
              return pct_change
          return None
      except Exception as e:
          logger.error(f"Error calculating change: {str(e)}")
          return None
  \<close>
  The body either returns or raises; the handler turns whatever was raised into a logged
  \<^verbatim>\<open>None\<close>. The reads at position 0 and -1 are in range under the length test.
\<close>

definition calculate_change_body :: "data_dict \<Rightarrow> exn + npfloat option" where
  "calculate_change_body d =
     (let df = data d in
      if 2 \<le> length df then
        (let oldest = Value (df ! 0);
             newest = Value (df ! (length df - 1));
             pct_change = np_mul (np_truediv (np_sub newest oldest) oldest) 100
         in Inr (Some pct_change))
      else Inr None)"

definition calculate_change_except :: "exn \<Rightarrow> world \<Rightarrow> npfloat option \<times> world" where
  "calculate_change_except e w =
     (None, logger_error (''Error calculating change: '' @ str_exn e) w)"

definition calculate_change :: "data_dict \<Rightarrow> world \<Rightarrow> npfloat option \<times> world" where
  "calculate_change d w =
     (case calculate_change_body d of
        Inr r \<Rightarrow> (r, w)
      | Inl e \<Rightarrow> calculate_change_except e w)"

section \<open>The pandas operations the statistics use\<close>

text \<open>
  \<^verbatim>\<open>s.iloc[-1]\<close> raises IndexError on an empty column. \<^verbatim>\<open>s.min()\<close>, \<^verbatim>\<open>s.max()\<close>
  and \<^verbatim>\<open>s.mean()\<close> of an empty column are \<^verbatim>\<open>nan\<close>. \<^verbatim>\<open>s.idxmin()\<close> and
  \<^verbatim>\<open>s.idxmax()\<close> raise ValueError on an empty column and otherwise give the label of
  the first row that holds the extreme value; after \<^verbatim>\<open>reset_index\<close> the labels are
  the positions \<open>0, 1, ...\<close>, which is what \<^verbatim>\<open>df.loc[label, 'Quarter']\<close> reads.
\<close>

definition iloc_last :: "'a list \<Rightarrow> exn + 'a" where
  "iloc_last xs =
     (if xs = [] then Inl (Exn ''single positional indexer is out-of-bounds'')
      else Inr (xs ! (length xs - 1)))"

fun series_min :: "real list \<Rightarrow> npfloat" where
  "series_min [] = NaN"
| "series_min (v # vs) = Fin (fold min vs v)"

fun series_max :: "real list \<Rightarrow> npfloat" where
  "series_max [] = NaN"
| "series_max (v # vs) = Fin (fold max vs v)"

text \<open>
  The scan behind \<^verbatim>\<open>argmin\<close>: \<open>bi\<close> is the position of the best value \<open>bv\<close> so
  far, \<open>i\<close> the position of the next value. Only a strictly smaller value replaces the
  best one.
\<close>

fun argmin_scan :: "nat \<Rightarrow> real \<Rightarrow> nat \<Rightarrow> real list \<Rightarrow> nat" where
  "argmin_scan bi bv i [] = bi"
| "argmin_scan bi bv i (v # vs) =
     (if v < bv then argmin_scan i v (Suc i) vs else argmin_scan bi bv (Suc i) vs)"

fun argmax_scan :: "nat \<Rightarrow> real \<Rightarrow> nat \<Rightarrow> real list \<Rightarrow> nat" where
  "argmax_scan bi bv i [] = bi"
| "argmax_scan bi bv i (v # vs) =
     (if bv < v then argmax_scan i v (Suc i) vs else argmax_scan bi bv (Suc i) vs)"

fun series_idxmin :: "real list \<Rightarrow> exn + nat" where
  "series_idxmin [] = Inl (Exn ''attempt to get argmin of an empty sequence'')"
| "series_idxmin (v # vs) = Inr (argmin_scan 0 v 1 vs)"

fun series_idxmax :: "real list \<Rightarrow> exn + nat" where
  "series_idxmax [] = Inl (Exn ''attempt to get argmax of an empty sequence'')"
| "series_idxmax (v # vs) = Inr (argmax_scan 0 v 1 vs)"

definition series_mean :: "real list \<Rightarrow> npfloat" where
  "series_mean vs = (if vs = [] then NaN else Fin (sum_list vs / real (length vs)))"

text \<open>\<^verbatim>\<open>df.loc[i, 'Quarter']\<close>: KeyError when the label is not in the index.\<close>

definition loc_Quarter :: "dataframe \<Rightarrow> nat \<Rightarrow> exn + string" where
  "loc_Quarter df i = (if i < length df then Inr (Quarter (df ! i)) else Inl (Exn (str_nat i)))"

section \<open>The key statistics of \<^verbatim>\<open>main\<close>\<close>

text \<open>
  \<^verbatim>\<open>
  df = data_dict['data']
  latest_value = df['Value'].iloc[-1]
  latest_quarter = df['Quarter'].iloc[-1]
  pct_change = calculate_change(data_dict)
  st.metric(label=f"Latest Value ({latest_quarter})",
            value=f"{latest_value:,.2f} {units}",
            delta=f"{pct_change:.2f}%" if pct_change is not None else None)
  min_val = df['Value'].min()
  min_quarter = df.loc[df['Value'].idxmin(), 'Quarter']
  st.metric("Minimum", f"{min_val:,.2f}");  st.caption(f"Quarter: {min_quarter}")
  max_val = df['Value'].max()
  max_quarter = df.loc[df['Value'].idxmax(), 'Quarter']
  st.metric("Maximum", f"{max_val:,.2f}");  st.caption(f"Quarter: {max_quarter}")
  st.metric("Average", f"{df['Value'].mean():,.2f}")
  \<close>
  The statistics are computed first and shown after: the only step that can raise on a
  table of numbers is the first read, so the order of computing and showing does not
  matter. A metric carries the number itself, not its two-decimal print.
\<close>

record key_stats =
  latest_value :: real
  latest_quarter :: string
  pct_change :: "npfloat option"
  min_val :: npfloat
  min_quarter :: string
  max_val :: npfloat
  max_quarter :: string
  mean_val :: npfloat

definition key_statistics :: "data_dict \<Rightarrow> world \<Rightarrow> (exn + key_stats) \<times> world" where
  "key_statistics d w =
     (let df = data d; vs = map Value df in
      (case iloc_last vs of Inl e \<Rightarrow> (Inl e, w) | Inr lv \<Rightarrow>
      (case iloc_last (map Quarter df) of Inl e \<Rightarrow> (Inl e, w) | Inr lq \<Rightarrow>
      (case calculate_change d w of (pc, w1) \<Rightarrow>
      (case series_idxmin vs of Inl e \<Rightarrow> (Inl e, w1) | Inr imin \<Rightarrow>
      (case loc_Quarter df imin of Inl e \<Rightarrow> (Inl e, w1) | Inr minq \<Rightarrow>
      (case series_idxmax vs of Inl e \<Rightarrow> (Inl e, w1) | Inr imax \<Rightarrow>
      (case loc_Quarter df imax of Inl e \<Rightarrow> (Inl e, w1) | Inr maxq \<Rightarrow>
        (Inr \<lparr>latest_value = lv, latest_quarter = lq, pct_change = pc,
              min_val = series_min vs, min_quarter = minq,
              max_val = series_max vs, max_quarter = maxq,
              mean_val = series_mean vs\<rparr>, w1)))))))))"

definition show_key_statistics :: "key_stats \<Rightarrow> string \<Rightarrow> world \<Rightarrow> world" where
  "show_key_statistics s u w =
     (st (Metric ''Average'' (mean_val s) [] None)
     (st (Caption (''Quarter: '' @ max_quarter s))
     (st (Metric ''Maximum'' (max_val s) [] None)
     (st (Caption (''Quarter: '' @ min_quarter s))
     (st (Metric ''Minimum'' (min_val s) [] None)
     (st (Metric (''Latest Value ('' @ latest_quarter s @ '')'') (Fin (latest_value s)) u (pct_change s))
      w))))))"

section \<open>\<^verbatim>\<open>create_chart\<close>\<close>

text \<open>
  A plotly express call builds a figure whose axis titles are the labels given for the
  two columns; \<^verbatim>\<open>markers\<close> is off and no colour sequence is set unless the call
  says so. \<^verbatim>\<open>update_layout\<close> then sets both axis titles, the template and the height.
\<close>

definition px_label :: "(string \<times> string) list \<Rightarrow> string \<Rightarrow> string" where
  "px_label ls c = (case map_of ls c of Some l \<Rightarrow> l | None \<Rightarrow> c)"

definition px :: "px_kind \<Rightarrow> string \<Rightarrow> string \<Rightarrow> string \<Rightarrow> (string \<times> string) list
    \<Rightarrow> bool \<Rightarrow> string list option \<Rightarrow> figure" where
  "px k xc yc t ls m cs =
     \<lparr>kind = k, fig_x = xc, fig_y = yc, fig_title = t, labels = ls, markers = m,
      color_discrete_sequence = cs,
      xaxis_title = px_label ls xc, yaxis_title = px_label ls yc,
      template = ''plotly'', height = None\<rparr>"

definition update_layout :: "string \<Rightarrow> string \<Rightarrow> string \<Rightarrow> nat \<Rightarrow> figure \<Rightarrow> figure" where
  "update_layout xt yt tmpl h fig =
     fig\<lparr>xaxis_title := xt, yaxis_title := yt, template := tmpl, height := Some h\<rparr>"

definition create_chart :: "data_dict \<Rightarrow> string \<Rightarrow> world \<Rightarrow> figure option \<times> world" where
  "create_chart d ct w =
     (let w1 = logger_info (''Creating '' @ ct @ '' chart for '' @ title d) w;
          df = data d;
          t = title d @ '' - Last '' @ str_nat (length df) @ '' Quarters'';
          ls = [(''Value'', title d @ '' ('' @ units d @ '')''), (''Quarter'', [])];
          fig =
            (if ct = ''Line'' then px PxLine ''Quarter'' ''Value'' t ls True None
             else if ct = ''Bar'' then px PxBar ''Quarter'' ''Value'' t ls False (Some [''#1E88E5''])
             else if ct = ''Area'' then px PxArea ''Quarter'' ''Value'' t ls False (Some [''#1E88E5''])
             else px PxLine ''Quarter'' ''Value'' t ls False None)
      in (Some (update_layout [] (title d @ '' ('' @ units d @ '')'') ''plotly_white'' 500 fig), w1))"

section \<open>\<^verbatim>\<open>initialize_fred\<close> and \<^verbatim>\<open>get_economic_data\<close>\<close>

text \<open>
  What the script reads from outside: the credential in the process environment
  (\<^verbatim>\<open>os.getenv("FRED_API_KEY")\<close>), the remote provider behind
  \<^verbatim>\<open>fred.get_series\<close> (given the key, the series identifier and the interval, it
  answers with the observations in order or raises), and the clock, in days.
\<close>

record env =
  fred_api_key :: "string option"
  provider :: "string \<Rightarrow> string \<Rightarrow> int \<Rightarrow> int \<Rightarrow> exn + (date \<times> real) list"
  now :: int

record fred_client =
  api_key :: string

text \<open>Python's \<^verbatim>\<open>not fred_api_key\<close>: the variable is unset or is the empty string.\<close>

definition not_key :: "string option \<Rightarrow> bool" where
  "not_key k = (case k of None \<Rightarrow> True | Some s \<Rightarrow> s = [])"

text \<open>
  \<^verbatim>\<open>
  def initialize_fred():
      try:
          logger.info("Initializing FRED API client")
          if not fred_api_key:
              logger.error("FRED API key not found in environment variables")
              st.error("FRED API key not found. Please check your .env file.")
              return None
          return Fred(api_key=fred_api_key)
      except Exception as e: ...
  \<close>
  The constructor stores a key that is given and does not raise.
\<close>

definition initialize_fred :: "env \<Rightarrow> world \<Rightarrow> fred_client option \<times> world" where
  "initialize_fred e w =
     (let w1 = logger_info ''Initializing FRED API client'' w in
      if not_key (fred_api_key e) then
        (None, st (Error ''FRED API key not found. Please check your .env file.'')
                 (logger_error ''FRED API key not found in environment variables'' w1))
      else (Some \<lparr>api_key = the (fred_api_key e)\<rparr>, w1))"

text \<open>
  \<^verbatim>\<open>fred.get_series(series_id, start_date, end_date)\<close>: one request to the provider,
  recorded in the world.
\<close>

definition get_series :: "env \<Rightarrow> fred_client \<Rightarrow> string \<Rightarrow> int \<Rightarrow> int \<Rightarrow> world
    \<Rightarrow> (exn + (date \<times> real) list) \<times> world" where
  "get_series e fred sid s t w =
     (provider e (api_key fred) sid s t, w\<lparr>requests := requests w @ [(sid, s, t)]\<rparr>)"

text \<open>
  \<^verbatim>\<open>
  def get_economic_data(fred, series_id, title, units="", quarters=8):
      try:
          logger.info(f"Fetching {title} data with series ID: {series_id}")
          end_date = datetime.now()
          start_date = end_date - timedelta(days=quarters * 91)
          data = fred.get_series(series_id, start_date, end_date)
          if data.empty:
              logger.warning(f"No data returned for series {series_id}")
              return None
          df = pd.DataFrame(data)
          df.reset_index(inplace=True)
          df.columns = ['Date', 'Value']
          df['Quarter'] = df['Date'].dt.to_period('Q').astype(str)
          logger.info(f"Successfully retrieved {len(df)} data points for {title}")
          return {'data': df, 'title': title, 'units': units}
      except Exception as e:
          logger.error(f"Error fetching data for {series_id}: {str(e)}", exc_info=True)
          st.error(f"Error fetching {title} data: {str(e)}")
          return None
  \<close>
\<close>

definition shape_row :: "date \<times> real \<Rightarrow> row" where
  "shape_row ob = \<lparr>Date = fst ob, Value = snd ob, Quarter = to_period_Q (fst ob)\<rparr>"

definition get_economic_data :: "env \<Rightarrow> fred_client \<Rightarrow> string \<Rightarrow> string \<Rightarrow> string \<Rightarrow> nat
    \<Rightarrow> world \<Rightarrow> data_dict option \<times> world" where
  "get_economic_data e fred sid ttl u q w =
     (let w1 = logger_info (''Fetching '' @ ttl @ '' data with series ID: '' @ sid) w;
          end_date = now e;
          start_date = end_date - int (q * 91)
      in case get_series e fred sid start_date end_date w1 of
           (Inl ex, w2) \<Rightarrow>
             (None, st (Error (''Error fetching '' @ ttl @ '' data: '' @ str_exn ex))
                      (logger_error (''Error fetching data for '' @ sid @ '': '' @ str_exn ex) w2))
         | (Inr obs, w2) \<Rightarrow>
             if obs = [] then
               (None, logger_warning (''No data returned for series '' @ sid) w2)
             else
               (let df = map shape_row obs in
                (Some \<lparr>data = df, title = ttl, units = u\<rparr>,
                 logger_info (''Successfully retrieved '' @ str_nat (length df)
                              @ '' data points for '' @ ttl) w2)))"

section \<open>\<^verbatim>\<open>main\<close>\<close>

text \<open>
  The catalogue of indicators (name, series identifier, units) and their descriptions,
  in the order of the source.
\<close>

definition indicators :: "(string \<times> string \<times> string) list" where
  "indicators =
     [(''Gross Domestic Product (GDP)'', ''GDP'', ''Billions of Dollars''),
      (''Real GDP'', ''GDPC1'', ''Billions of Chained 2017 Dollars''),
      (''GDP Growth Rate'', ''A191RL1Q225SBEA'', ''Percent Change from Preceding Period''),
      (''Personal Consumption Expenditures'', ''PCE'', ''Billions of Dollars''),
      (''Unemployment Rate'', ''UNRATE'', ''Percent''),
      (''Consumer Price Index (CPI)'', ''CPIAUCSL'', ''Index 1982-1984=100''),
      (''Federal Funds Rate'', ''FEDFUNDS'', ''Percent'')]"

definition descriptions :: "(string \<times> string) list" where
  "descriptions =
     [(''Gross Domestic Product (GDP)'', ''GDP is the total monetary or market value of all finished goods and services produced within a country's borders in a specific time period.''),
      (''Real GDP'', ''Real GDP is a macroeconomic measure of the value of economic output adjusted for price changes (inflation or deflation).''),
      (''GDP Growth Rate'', ''This measures the annualized percentage change in GDP from the previous quarter.''),
      (''Personal Consumption Expenditures'', ''PCE measures consumer spending on goods and services in the U.S. economy.''),
      (''Unemployment Rate'', ''The unemployment rate represents the number of unemployed as a percentage of the labor force.''),
      (''Consumer Price Index (CPI)'', ''CPI measures the average change over time in the prices paid by urban consumers for a market basket of consumer goods and services.''),
      (''Federal Funds Rate'', ''The federal funds rate is the interest rate at which depository institutions trade federal funds with each other overnight.'')]"

text \<open>
  What the user has selected in the three sidebar widgets. The select boxes return one
  of their options and the slider a value in its range.
\<close>

record widgets =
  selected_indicator :: string
  chart_type :: string
  quarters :: nat

definition chart_types :: "string list" where
  "chart_types = [''Line'', ''Bar'', ''Area'']"

text \<open>
  How the body of \<^verbatim>\<open>main\<close> ends: it returns, it raises an exception (which the
  handler of \<^verbatim>\<open>main\<close> catches), or \<^verbatim>\<open>st.stop()\<close> ends the run (its exception is
  not an \<^verbatim>\<open>Exception\<close>, so the handler lets it through).
\<close>

datatype ending = Returned | Raised exn | Stopped

text \<open>
  The page header (the pictograph of the title and the page icon are left out of the
  strings), then the sidebar with its three widgets.
\<close>

definition page_header :: "world \<Rightarrow> world" where
  "page_header w =
     st (Markdown ''This dashboard shows key economic indicators from the Federal Reserve Economic Data (FRED).'')
    (st (Title ''U.S. Economic Data Dashboard'')
    (st (SetPageConfig ''Economic Data Dashboard'' ''wide'') w))"

definition sidebar :: "world \<Rightarrow> world" where
  "sidebar w =
     st (SidebarSlider ''Number of quarters to display'' 4 20 8)
    (st (SidebarSelectbox ''Select Chart Type'' chart_types)
    (st (SidebarSelectbox ''Select Economic Indicator'' (map fst indicators))
    (st (SidebarSubheader ''Economic Indicators'')
    (st (SidebarHeader ''Options'') w))))"

definition footer :: "world \<Rightarrow> world" where
  "footer w =
     st (SidebarCaption ''St. Louis Federal Reserve Bank'')
    (st (SidebarCaption ''Data source: Federal Reserve Economic Data (FRED)'')
    (st (SidebarMarkdown ''---'') w))"

text \<open>
  The first column: the chart and, under it, the raw data (shown sorted by quarter,
  newest first; the event carries the table).
\<close>

definition chart_column :: "data_dict \<Rightarrow> string \<Rightarrow> world \<Rightarrow> world" where
  "chart_column d ct w =
     (case create_chart d ct w of
        (Some fig, w1) \<Rightarrow> st (RawData (data d)) (st (PlotlyChart fig) w1)
      | (None, w1) \<Rightarrow> w1)"

text \<open>The second column: the key statistics and the description of the indicator.\<close>

definition stats_column :: "data_dict \<Rightarrow> string \<Rightarrow> string \<Rightarrow> world \<Rightarrow> ending \<times> world" where
  "stats_column d sel u w =
     (case key_statistics d (st (Subheader ''Key Statistics'') w) of
        (Inl e, w1) \<Rightarrow> (Raised e, w1)
      | (Inr s, w1) \<Rightarrow>
          (Returned,
           st (Markdown (case map_of descriptions sel of Some t \<Rightarrow> t
                         | None \<Rightarrow> ''No description available.''))
          (st (Subheader ''About this Indicator'')
          (show_key_statistics s u w1))))"

text \<open>
  The part of \<^verbatim>\<open>main\<close> after the widgets: look the indicator up, fetch, log, then
  either the two columns or the message that there is no data; the footer last.
\<close>

definition log_pull :: "string \<Rightarrow> data_dict option \<Rightarrow> world \<Rightarrow> world" where
  "log_pull sel dd w =
     (case dd of
        Some d \<Rightarrow> logger_info (''Successfully pulled '' @ str_nat (length (data d))
                                @ '' data points for '' @ sel) w
      | None \<Rightarrow> logger_warning (''No data returned for '' @ sel) w)"

definition no_data :: "string \<Rightarrow> world \<Rightarrow> world" where
  "no_data sel w =
     st (Error (''No data available for '' @ sel @ ''. Please try another indicator.'')) w"

definition two_columns :: "data_dict \<Rightarrow> widgets \<Rightarrow> string \<Rightarrow> world \<Rightarrow> ending \<times> world" where
  "two_columns d ws u w =
     (case stats_column d (selected_indicator ws) u (chart_column d (chart_type ws) w) of
        (Returned, w1) \<Rightarrow> (Returned, footer w1)
      | (r, w1) \<Rightarrow> (r, w1))"

definition show_result :: "data_dict option \<Rightarrow> widgets \<Rightarrow> string \<Rightarrow> world \<Rightarrow> ending \<times> world" where
  "show_result dd ws u w =
     (case dd of
        Some d \<Rightarrow>
          (if data d \<noteq> [] then two_columns d ws u w
           else (Returned, footer (no_data (selected_indicator ws) w)))
      | None \<Rightarrow> (Returned, footer (no_data (selected_indicator ws) w)))"

definition show_indicator :: "env \<Rightarrow> fred_client \<Rightarrow> widgets \<Rightarrow> world \<Rightarrow> ending \<times> world" where
  "show_indicator e fred ws w =
     (let sel = selected_indicator ws in
      (case map_of indicators sel of
         None \<Rightarrow> (Raised (Exn ([CHR 0x27] @ sel @ [CHR 0x27])), w)
       | Some (sid, u) \<Rightarrow>
           (case get_economic_data e fred sid sel u (quarters ws) w of
              (dd, w1) \<Rightarrow> show_result dd ws u (log_pull sel dd w1))))"

definition main_body :: "env \<Rightarrow> widgets \<Rightarrow> world \<Rightarrow> ending \<times> world" where
  "main_body e ws w =
     (case initialize_fred e (page_header w) of
        (None, w1) \<Rightarrow> (Stopped, w1)
      | (Some fred, w1) \<Rightarrow> show_indicator e fred ws (sidebar w1))"

definition main :: "env \<Rightarrow> widgets \<Rightarrow> world \<Rightarrow> world" where
  "main e ws w =
     (case main_body e ws w of
        (Raised ex, w1) \<Rightarrow>
          st (Error (''An error occurred: '' @ str_exn ex))
             (logger_error (''Application error: '' @ str_exn ex) w1)
      | (r, w1) \<Rightarrow> w1)"

definition world0 :: world where
  "world0 = \<lparr>ui = [], logs = [], requests = []\<rparr>"

section \<open>Notions the properties are stated with\<close>

text \<open>
  Position \<open>k\<close> of a column holds its least value and no earlier position does; the
  same for the greatest value.
\<close>

definition first_min :: "real list \<Rightarrow> nat \<Rightarrow> bool" where
  "first_min vs k \<longleftrightarrow>
     k < length vs \<and> (\<forall>j < length vs. vs ! k \<le> vs ! j) \<and> (\<forall>j < k. vs ! k < vs ! j)"

definition first_max :: "real list \<Rightarrow> nat \<Rightarrow> bool" where
  "first_max vs k \<longleftrightarrow>
     k < length vs \<and> (\<forall>j < length vs. vs ! j \<le> vs ! k) \<and> (\<forall>j < k. vs ! j < vs ! k)"

text \<open>What a run has shown to the user: the error messages and the charts, in order.\<close>

definition error_messages :: "world \<Rightarrow> string list" where
  "error_messages w = List.map_filter (\<lambda>ev. case ev of Error m \<Rightarrow> Some m | _ \<Rightarrow> None) (ui w)"

fun is_chart :: "ui_event \<Rightarrow> bool" where
  "is_chart (PlotlyChart f) = True"
| "is_chart _ = False"

definition charts :: "world \<Rightarrow> ui_event list" where
  "charts w = filter is_chart (ui w)"

section \<open>Example inputs\<close>

text \<open>A shaped row for the first day of a month, and two tables of two rows.\<close>

definition mk_row :: "nat \<Rightarrow> nat \<Rightarrow> real \<Rightarrow> row" where
  "mk_row yr m v = shape_row (\<lparr>year = yr, month = m, day = 1\<rparr>, v)"

definition two_rows :: data_dict where
  "two_rows = \<lparr>data = [mk_row 2024 1 2, mk_row 2024 4 3], title = ''Real GDP'',
               units = ''Billions of Chained 2017 Dollars''\<rparr>"

definition zero_first :: data_dict where
  "zero_first = \<lparr>data = [mk_row 2024 1 0, mk_row 2024 4 1], title = ''GDP Growth Rate'',
               units = ''Percent Change from Preceding Period''\<rparr>"

definition one_row :: data_dict where
  "one_row = \<lparr>data = [mk_row 2024 1 5], title = ''Federal Funds Rate'', units = ''Percent''\<rparr>"

text \<open>The eight points of the unemployment-rate scenario, in chronological order.\<close>

definition unrate_series :: data_dict where
  "unrate_series =
     \<lparr>data = [mk_row 2024 1 3.5, mk_row 2024 2 3.6, mk_row 2024 3 3.7, mk_row 2024 4 3.9,
              mk_row 2024 5 4.0, mk_row 2024 6 3.8, mk_row 2024 7 3.7, mk_row 2024 8 3.6],
      title = ''Unemployment Rate'', units = ''Percent''\<rparr>"

text \<open>
  Environments: no credential; a credential and a provider that answers every request
  with an empty series; a credential and a provider that answers with one observation.
\<close>

definition env_no_key :: env where
  "env_no_key =
     \<lparr>fred_api_key = None,
      provider = (\<lambda>k sid s t. Inr [(\<lparr>year = 2024, month = 1, day = 1\<rparr>, 1)]),
      now = 739000\<rparr>"

definition env_empty :: env where
  "env_empty =
     \<lparr>fred_api_key = Some ''0123456789abcdef0123456789abcdef'',
      provider = (\<lambda>k sid s t. Inr []),
      now = 739000\<rparr>"

definition env_one :: env where
  "env_one =
     \<lparr>fred_api_key = Some ''0123456789abcdef0123456789abcdef'',
      provider = (\<lambda>k sid s t. Inr [(\<lparr>year = 2024, month = 1, day = 1\<rparr>, 3.5)]),
      now = 739000\<rparr>"

definition gdp_client :: fred_client where
  "gdp_client = \<lparr>api_key = ''0123456789abcdef0123456789abcdef''\<rparr>"

definition unrate_widgets :: widgets where
  "unrate_widgets =
     \<lparr>selected_indicator = ''Unemployment Rate'', chart_type = ''Line'', quarters = 8\<rparr>"

text \<open>The logger's world on the last day of a year, with nothing logged yet.\<close>

definition new_years_eve :: log_world where
  "new_years_eve = \<lparr>clock_date = ''2024-12-31'', console = [], written = []\<rparr>"

section \<open>Percent change\<close>

lemma nth_0_hd: "xs \<noteq> [] \<Longrightarrow> xs ! 0 = hd xs"
  by (cases xs) simp_all

lemma nth_last: "xs \<noteq> [] \<Longrightarrow> xs ! (length xs - Suc 0) = last xs"
  by (simp add: last_conv_nth)

lemma calculate_change_body_two:
  assumes "2 \<le> length (data d)"
  shows "calculate_change_body d =
     Inr (Some (np_mul (np_truediv (np_sub (Value (last (data d))) (Value (hd (data d))))
                          (Value (hd (data d)))) 100))"
proof -
  from assms have ne: "data d \<noteq> []" by auto
  show ?thesis
    using assms by (simp add: calculate_change_body_def Let_def nth_0_hd [OF ne] nth_last [OF ne])
qed

text \<open>
  C1. On a table of at least two rows \<^verbatim>\<open>calculate_change\<close> returns the value of
  \<^verbatim>\<open>(newest - oldest) / oldest * 100\<close> in the program's arithmetic, where oldest is the
  value of the first stored row and newest that of the last, and logs nothing. When the
  oldest value is not zero this is the number
  \<open>(last - first) / first * 100\<close>.
\<close>

theorem calculate_change_pct:
  assumes "2 \<le> length (data d)"
  shows "calculate_change d w =
           (Some (np_mul (np_truediv (np_sub (Value (last (data d))) (Value (hd (data d))))
                          (Value (hd (data d)))) 100), w)
       \<and> (Value (hd (data d)) \<noteq> 0 \<longrightarrow>
            fst (calculate_change d w) =
              Some (Fin ((Value (last (data d)) - Value (hd (data d))) / Value (hd (data d)) * 100)))"
  by (simp add: calculate_change_def calculate_change_body_two [OF assms] np_truediv_def np_sub_def)

theorem calculate_change_pct_witness:
  "2 \<le> length (data two_rows) \<and> Value (hd (data two_rows)) \<noteq> 0
   \<and> fst (calculate_change two_rows world0) = Some (Fin 50)"
proof -
  have len: "2 \<le> length (data two_rows)" by (simp add: two_rows_def)
  show ?thesis
    using len calculate_change_pct [OF len, of world0]
    by (simp add: two_rows_def mk_row_def shape_row_def np_truediv_def np_sub_def)
qed

text \<open>
  C2, as stated, fails: on the table whose oldest value is 0 and whose newest value is 1
  the body of \<^verbatim>\<open>calculate_change\<close> does not raise. It returns positive infinity, and
  so does the function, with nothing logged.
\<close>

theorem calculate_change_zero_counterexample:
  "calculate_change_body zero_first = Inr (Some PosInf)
   \<and> calculate_change zero_first world0 = (Some PosInf, world0)"
  by (simp add: calculate_change_def calculate_change_body_def zero_first_def mk_row_def
      shape_row_def np_truediv_def np_sub_def)

text \<open>
  C2, amended. On a table of at least two rows whose oldest value is 0 the division is
  unguarded and signals no fault: the body of \<^verbatim>\<open>calculate_change\<close> returns a
  non-finite number, and the function returns that number to the caller as the percent
  change, with nothing logged.
\<close>

theorem calculate_change_zero_oldest:
  assumes "2 \<le> length (data d)" and "Value (hd (data d)) = 0"
  shows "\<exists>r. calculate_change_body d = Inr (Some r) \<and> \<not> is_finite r
             \<and> calculate_change d w = (Some r, w)"
  using assms(2)
  by (simp add: calculate_change_def calculate_change_body_two [OF assms(1)] np_truediv_def
      np_sub_def)

theorem calculate_change_zero_oldest_witness:
  "2 \<le> length (data zero_first) \<and> Value (hd (data zero_first)) = 0
   \<and> (\<exists>r. calculate_change zero_first world0 = (Some r, world0) \<and> \<not> is_finite r)"
proof -
  have len: "2 \<le> length (data zero_first)" by (simp add: zero_first_def)
  have z: "Value (hd (data zero_first)) = 0"
    by (simp add: zero_first_def mk_row_def shape_row_def)
  from calculate_change_zero_oldest [OF len z, of world0]
  have "\<exists>r. calculate_change zero_first world0 = (Some r, world0) \<and> \<not> is_finite r"
    by blast
  with len z show ?thesis by simp
qed

section \<open>Key statistics\<close>

lemma argmin_scan_first:
  "first_min pre bi \<Longrightarrow> bv = pre ! bi \<Longrightarrow> i = length pre \<Longrightarrow>
   first_min (pre @ vs) (argmin_scan bi bv i vs)"
proof (induction vs arbitrary: pre bi bv i)
  case Nil
  then show ?case by simp
next
  case (Cons v vs)
  have bi: "bi < length pre"
    using Cons.prems by (simp add: first_min_def)
  show ?case
  proof (cases "v < bv")
    case True
    have "first_min (pre @ [v]) i"
      using Cons.prems True
      by (auto simp: first_min_def nth_append less_Suc_eq intro: less_le_trans less_imp_le)
    from Cons.IH [OF this, of v "Suc i"] Cons.prems True show ?thesis
      by (simp add: nth_append)
  next
    case False
    have "first_min (pre @ [v]) bi"
      using Cons.prems False
      by (auto simp: first_min_def nth_append less_Suc_eq)
    from Cons.IH [OF this, of bv "Suc i"] Cons.prems False bi show ?thesis
      by (simp add: nth_append)
  qed
qed

lemma argmax_scan_first:
  "first_max pre bi \<Longrightarrow> bv = pre ! bi \<Longrightarrow> i = length pre \<Longrightarrow>
   first_max (pre @ vs) (argmax_scan bi bv i vs)"
proof (induction vs arbitrary: pre bi bv i)
  case Nil
  then show ?case by simp
next
  case (Cons v vs)
  have bi: "bi < length pre"
    using Cons.prems by (simp add: first_max_def)
  show ?case
  proof (cases "bv < v")
    case True
    have "first_max (pre @ [v]) i"
      using Cons.prems True
      by (auto simp: first_max_def nth_append less_Suc_eq intro: le_less_trans less_imp_le)
    from Cons.IH [OF this, of v "Suc i"] Cons.prems True show ?thesis
      by (simp add: nth_append)
  next
    case False
    have "first_max (pre @ [v]) bi"
      using Cons.prems False
      by (auto simp: first_max_def nth_append less_Suc_eq)
    from Cons.IH [OF this, of bv "Suc i"] Cons.prems False bi show ?thesis
      by (simp add: nth_append)
  qed
qed

lemma series_idxmin_first:
  assumes "vs \<noteq> []"
  shows "\<exists>k. series_idxmin vs = Inr k \<and> first_min vs k"
proof -
  from assms obtain v ws where vs: "vs = v # ws" by (cases vs) auto
  have "first_min [v] 0" by (simp add: first_min_def)
  from argmin_scan_first [OF this, of v 1 ws] vs show ?thesis by simp
qed

lemma series_idxmax_first:
  assumes "vs \<noteq> []"
  shows "\<exists>k. series_idxmax vs = Inr k \<and> first_max vs k"
proof -
  from assms obtain v ws where vs: "vs = v # ws" by (cases vs) auto
  have "first_max [v] 0" by (simp add: first_max_def)
  from argmax_scan_first [OF this, of v 1 ws] vs show ?thesis by simp
qed

lemma first_min_Min: "first_min vs k \<Longrightarrow> Min (set vs) = vs ! k"
  by (rule Min_eqI) (auto simp: first_min_def in_set_conv_nth)

lemma first_max_Max: "first_max vs k \<Longrightarrow> Max (set vs) = vs ! k"
  by (rule Max_eqI) (auto simp: first_max_def in_set_conv_nth)

lemma series_min_Min:
  assumes "vs \<noteq> []"
  shows "series_min vs = Fin (Min (set vs))"
proof -
  from assms obtain v ws where vs: "vs = v # ws" by (cases vs) auto
  show ?thesis using Min.set_eq_fold [of v ws] vs by simp
qed

lemma series_max_Max:
  assumes "vs \<noteq> []"
  shows "series_max vs = Fin (Max (set vs))"
proof -
  from assms obtain v ws where vs: "vs = v # ws" by (cases vs) auto
  show ?thesis using Max.set_eq_fold [of v ws] vs by simp
qed

lemma calculate_change_world: "snd (calculate_change d w) = w"
  by (simp add: calculate_change_def calculate_change_body_def Let_def)

lemma calculate_change_short:
  "length (data d) < 2 \<Longrightarrow> calculate_change d w = (None, w)"
  by (simp add: calculate_change_def calculate_change_body_def Let_def)

text \<open>The statistics of a table that has a row, in one equation.\<close>

lemma key_statistics_nonempty:
  assumes ne: "data d \<noteq> []"
  shows "\<exists>imin imax.
     first_min (map Value (data d)) imin \<and> first_max (map Value (data d)) imax \<and>
     key_statistics d w =
       (Inr \<lparr>latest_value = Value (last (data d)), latest_quarter = Quarter (last (data d)),
             pct_change = fst (calculate_change d w),
             min_val = Fin (map Value (data d) ! imin), min_quarter = Quarter (data d ! imin),
             max_val = Fin (map Value (data d) ! imax), max_quarter = Quarter (data d ! imax),
             mean_val = Fin (sum_list (map Value (data d)) / real (length (data d)))\<rparr>, w)"
proof -
  let ?vs = "map Value (data d)"
  from ne have vne: "?vs \<noteq> []" by simp
  from series_idxmin_first [OF vne] obtain imin
    where imin: "series_idxmin ?vs = Inr imin" "first_min ?vs imin" by blast
  from series_idxmax_first [OF vne] obtain imax
    where imax: "series_idxmax ?vs = Inr imax" "first_max ?vs imax" by blast
  have lmin: "imin < length (data d)" using imin(2) by (simp add: first_min_def)
  have lmax: "imax < length (data d)" using imax(2) by (simp add: first_max_def)
  have smin: "series_min ?vs = Fin (?vs ! imin)"
    using series_min_Min [OF vne] first_min_Min [OF imin(2)] by simp
  have smax: "series_max ?vs = Fin (?vs ! imax)"
    using series_max_Max [OF vne] first_max_Max [OF imax(2)] by simp
  have lv: "iloc_last ?vs = Inr (Value (last (data d)))"
    using ne by (simp add: iloc_last_def last_conv_nth)
  have lq: "iloc_last (map Quarter (data d)) = Inr (Quarter (last (data d)))"
    using ne by (simp add: iloc_last_def last_conv_nth)
  have cc: "calculate_change d w = (fst (calculate_change d w), w)"
    using calculate_change_world [of d w] by (metis prod.collapse)
  have mean: "series_mean ?vs = Fin (sum_list ?vs / real (length (data d)))"
    using ne by (simp add: series_mean_def)
  have "key_statistics d w =
       (Inr \<lparr>latest_value = Value (last (data d)), latest_quarter = Quarter (last (data d)),
             pct_change = fst (calculate_change d w),
             min_val = Fin (?vs ! imin), min_quarter = Quarter (data d ! imin),
             max_val = Fin (?vs ! imax), max_quarter = Quarter (data d ! imax),
             mean_val = Fin (sum_list ?vs / real (length (data d)))\<rparr>, w)"
    unfolding key_statistics_def Let_def lv lq imin(1) imax(1) smin smax mean
    using lmin lmax by (subst cc) (simp add: loc_Quarter_def)
  with imin(2) imax(2) show ?thesis by blast
qed

text \<open>
  C3. On a table of exactly one row the statistics are computed without an exception,
  the percent change is \<^verbatim>\<open>None\<close>, and the latest value, the minimum and the maximum
  are all the value of that row.
\<close>

theorem single_row_statistics:
  assumes "data d = [r]"
  shows "\<exists>s. key_statistics d w = (Inr s, w) \<and> pct_change s = None
           \<and> latest_value s = Value r \<and> min_val s = Fin (Value r) \<and> max_val s = Fin (Value r)"
  using assms
  by (simp add: key_statistics_def Let_def iloc_last_def calculate_change_def
      calculate_change_body_def loc_Quarter_def)

theorem single_row_statistics_witness:
  "data one_row = [mk_row 2024 1 5]
   \<and> (\<exists>s. key_statistics one_row world0 = (Inr s, world0) \<and> pct_change s = None
           \<and> latest_value s = 5 \<and> min_val s = Fin 5 \<and> max_val s = Fin 5)"
proof -
  have h: "data one_row = [mk_row 2024 1 5]" by (simp add: one_row_def)
  show ?thesis
    using h single_row_statistics [OF h, of world0]
    by (simp add: mk_row_def shape_row_def)
qed

text \<open>
  C6. On every table that has a row the statistics are computed without an exception;
  the latest value and quarter are those of the last stored row; the minimum and its
  quarter are those of the first row that holds the least value (no earlier row holds
  it), the maximum and its quarter those of the first row that holds the greatest value;
  and the average is the sum of all values divided by the number of rows.
\<close>

theorem key_statistics_spec:
  assumes "data d \<noteq> []"
  shows "\<exists>s imin imax.
     key_statistics d w = (Inr s, w)
     \<and> latest_value s = Value (last (data d))
     \<and> latest_quarter s = Quarter (last (data d))
     \<and> first_min (map Value (data d)) imin
     \<and> min_val s = Fin (Value (data d ! imin)) \<and> min_quarter s = Quarter (data d ! imin)
     \<and> first_max (map Value (data d)) imax
     \<and> max_val s = Fin (Value (data d ! imax)) \<and> max_quarter s = Quarter (data d ! imax)
     \<and> mean_val s = Fin (sum_list (map Value (data d)) / real (length (data d)))"
proof -
  from key_statistics_nonempty [OF assms, of w] obtain imin imax where
    h: "first_min (map Value (data d)) imin" "first_max (map Value (data d)) imax"
     "key_statistics d w =
       (Inr \<lparr>latest_value = Value (last (data d)), latest_quarter = Quarter (last (data d)),
             pct_change = fst (calculate_change d w),
             min_val = Fin (map Value (data d) ! imin), min_quarter = Quarter (data d ! imin),
             max_val = Fin (map Value (data d) ! imax), max_quarter = Quarter (data d ! imax),
             mean_val = Fin (sum_list (map Value (data d)) / real (length (data d)))\<rparr>, w)"
    by blast
  have "imin < length (data d)" "imax < length (data d)"
    using h(1,2) by (simp_all add: first_min_def first_max_def)
  then have eq: "map Value (data d) ! imin = Value (data d ! imin)"
    "map Value (data d) ! imax = Value (data d ! imax)"
    by simp_all
  show ?thesis
    by (rule exI [of _ "\<lparr>latest_value = Value (last (data d)),
             latest_quarter = Quarter (last (data d)),
             pct_change = fst (calculate_change d w),
             min_val = Fin (map Value (data d) ! imin), min_quarter = Quarter (data d ! imin),
             max_val = Fin (map Value (data d) ! imax), max_quarter = Quarter (data d ! imax),
             mean_val = Fin (sum_list (map Value (data d)) / real (length (data d)))\<rparr>"],
        rule exI [of _ imin], rule exI [of _ imax], simp add: h eq)
qed

theorem key_statistics_spec_witness:
  "data two_rows \<noteq> []
   \<and> (\<exists>s imin. key_statistics two_rows world0 = (Inr s, world0)
         \<and> latest_value s = 3 \<and> first_min (map Value (data two_rows)) imin
         \<and> min_val s = Fin (Value (data two_rows ! imin))
         \<and> mean_val s = Fin (5 / 2))"
proof -
  have ne: "data two_rows \<noteq> []" by (simp add: two_rows_def)
  from key_statistics_spec [OF ne, of world0] obtain s imin and imax :: nat where
    h: "key_statistics two_rows world0 = (Inr s, world0)"
       "latest_value s = Value (last (data two_rows))"
       "first_min (map Value (data two_rows)) imin"
       "min_val s = Fin (Value (data two_rows ! imin))"
       "mean_val s = Fin (sum_list (map Value (data two_rows)) / real (length (data two_rows)))"
    by blast
  have "latest_value s = 3" "mean_val s = Fin (5 / 2)"
    using h(2,5) by (simp_all add: two_rows_def mk_row_def shape_row_def)
  with ne h(1,3,4) show ?thesis by blast
qed

text \<open>The percent change reads the table through its \<^verbatim>\<open>Value\<close> column only.\<close>

lemma calculate_change_body_values:
  "calculate_change_body d =
     (let vs = map Value (data d) in
      if 2 \<le> length vs
      then Inr (Some (np_mul (np_truediv (np_sub (vs ! (length vs - 1)) (vs ! 0)) (vs ! 0)) 100))
      else Inr None)"
proof (cases "2 \<le> length (data d)")
  case True
  then have "0 < length (data d)" "length (data d) - 1 < length (data d)" by linarith+
  then have "map Value (data d) ! 0 = Value (data d ! 0)"
    "map Value (data d) ! (length (data d) - 1) = Value (data d ! (length (data d) - 1))"
    by (simp_all only: nth_map)
  with True show ?thesis by (simp add: calculate_change_body_def Let_def)
next
  case False
  then show ?thesis by (simp add: calculate_change_body_def Let_def)
qed

text \<open>
  C8. For a table whose values are 3.5, 3.6, 3.7, 3.9, 4.0, 3.8, 3.7, 3.6 in stored order
  the statistics are: latest 3.6, minimum 3.5 (first row), maximum 4.0 (fifth row), average
  3.725, and percent change \<open>(3.6 - 3.5) / 3.5 * 100\<close>, which is within 0.001 of 2.857.
\<close>

theorem unrate_scenario:
  assumes "map Value (data d) = [3.5, 3.6, 3.7, 3.9, 4.0, 3.8, 3.7, 3.6]"
  shows "\<exists>s p. key_statistics d w = (Inr s, w)
     \<and> latest_value s = 3.6 \<and> min_val s = Fin 3.5 \<and> max_val s = Fin 4.0
     \<and> mean_val s = Fin 3.725
     \<and> pct_change s = Some (Fin p) \<and> p = (3.6 - 3.5) / 3.5 * 100 \<and> \<bar>p - 2.857\<bar> < 0.001
     \<and> min_quarter s = Quarter (data d ! 0) \<and> max_quarter s = Quarter (data d ! 4)"
proof -
  have len: "length (data d) = 8"
    using arg_cong [OF assms, of length] by simp
  have ne: "data d \<noteq> []" using len by auto
  have four: "(4::nat) = Suc (Suc (Suc (Suc 0)))" by simp
  have cc: "calculate_change d w = (Some (Fin ((3.6 - 3.5) / 3.5 * 100)), w)"
    unfolding calculate_change_def calculate_change_body_values assms
    by (simp add: np_sub_def np_truediv_def)
  have ks: "key_statistics d w =
      (Inr \<lparr>latest_value = 3.6, latest_quarter = Quarter (data d ! 7),
            pct_change = Some (Fin ((3.6 - 3.5) / 3.5 * 100)),
            min_val = Fin 3.5, min_quarter = Quarter (data d ! 0),
            max_val = Fin 4.0, max_quarter = Quarter (data d ! 4),
            mean_val = Fin 3.725\<rparr>, w)"
    unfolding key_statistics_def Let_def assms cc
    using ne by (simp add: iloc_last_def len loc_Quarter_def series_mean_def four)
  show ?thesis
    by (rule exI [of _ "\<lparr>latest_value = 3.6, latest_quarter = Quarter (data d ! 7),
            pct_change = Some (Fin ((3.6 - 3.5) / 3.5 * 100)),
            min_val = Fin 3.5, min_quarter = Quarter (data d ! 0),
            max_val = Fin 4.0, max_quarter = Quarter (data d ! 4),
            mean_val = Fin 3.725\<rparr>"],
        rule exI [of _ "(3.6 - 3.5) / 3.5 * 100"], simp add: ks)
qed

theorem unrate_scenario_witness:
  "map Value (data unrate_series) = [3.5, 3.6, 3.7, 3.9, 4.0, 3.8, 3.7, 3.6]
   \<and> (\<exists>s. key_statistics unrate_series world0 = (Inr s, world0)
         \<and> latest_value s = 3.6 \<and> min_val s = Fin 3.5 \<and> max_val s = Fin 4.0
         \<and> mean_val s = Fin 3.725 \<and> pct_change s = Some (Fin (20 / 7)))"
proof -
  have h: "map Value (data unrate_series) = [3.5, 3.6, 3.7, 3.9, 4.0, 3.8, 3.7, 3.6]"
    by (simp add: unrate_series_def mk_row_def shape_row_def)
  from unrate_scenario [OF h, of world0] obtain s p where
    "key_statistics unrate_series world0 = (Inr s, world0)"
    "latest_value s = 3.6" "min_val s = Fin 3.5" "max_val s = Fin 4.0"
    "mean_val s = Fin 3.725" "pct_change s = Some (Fin p)" "p = (3.6 - 3.5) / 3.5 * 100"
    by blast
  then show ?thesis using h by simp
qed

section \<open>The run of \<^verbatim>\<open>main\<close>\<close>

lemma ui_st [simp]: "ui (st ev w) = ui w @ [ev]"
  by (simp add: st_def)

lemma ui_logger_log [simp]: "ui (logger_log lvl m w) = ui w"
  by (simp add: logger_log_def)

lemma requests_st [simp]: "requests (st ev w) = requests w"
  by (simp add: st_def)

lemma requests_logger_log [simp]: "requests (logger_log lvl m w) = requests w"
  by (simp add: logger_log_def)

text \<open>
  C5. When the credential is missing (unset or empty) the run stops right after the
  configuration error is shown: the body of \<^verbatim>\<open>main\<close> ends by \<^verbatim>\<open>st.stop()\<close>, no
  request has been sent to the data provider, and the page holds the header followed by
  the error message and nothing else.
\<close>

theorem missing_key_no_fetch:
  assumes "not_key (fred_api_key e)"
  shows "main_body e ws w = (Stopped, main e ws w)
       \<and> requests (main e ws w) = requests w
       \<and> ui (main e ws w) =
           ui (page_header w) @ [Error ''FRED API key not found. Please check your .env file.'']"
  using assms by (simp add: main_def main_body_def initialize_fred_def Let_def page_header_def)

theorem missing_key_no_fetch_witness:
  "not_key (fred_api_key env_no_key)
   \<and> requests (main env_no_key unrate_widgets world0) = []
   \<and> error_messages (main env_no_key unrate_widgets world0) =
       [''FRED API key not found. Please check your .env file.'']"
proof -
  have h: "not_key (fred_api_key env_no_key)" by (simp add: env_no_key_def not_key_def)
  show ?thesis
    using h missing_key_no_fetch [OF h, of unrate_widgets world0]
    by (simp add: world0_def page_header_def error_messages_def)
qed

lemma get_economic_data_empty:
  assumes "provider e (api_key fred) sid (now e - int (q * 91)) (now e) = Inr []"
  shows "fst (get_economic_data e fred sid ttl u q w) = None
       \<and> ui (snd (get_economic_data e fred sid ttl u q w)) = ui w
       \<and> requests (snd (get_economic_data e fred sid ttl u q w)) =
           requests w @ [(sid, now e - int (q * 91), now e)]"
  using assms by (simp add: get_economic_data_def get_series_def Let_def)

lemma main_empty_series:
  assumes "\<not> not_key (fred_api_key e)"
    and "map_of indicators (selected_indicator ws) = Some (sid, u)"
    and "provider e (the (fred_api_key e)) sid (now e - int (quarters ws * 91)) (now e) = Inr []"
  shows "\<exists>w2. ui w2 = ui (sidebar (page_header world0))
            \<and> requests w2 = [(sid, now e - int (quarters ws * 91), now e)]
            \<and> main e ws world0 = footer (no_data (selected_indicator ws) w2)"
proof -
  let ?fred = "\<lparr>api_key = the (fred_api_key e)\<rparr>"
  let ?sel = "selected_indicator ws"
  let ?w1 = "sidebar (logger_info ''Initializing FRED API client'' (page_header world0))"
  have init: "initialize_fred e (page_header world0) =
      (Some ?fred, logger_info ''Initializing FRED API client'' (page_header world0))"
    using assms(1) by (simp add: initialize_fred_def Let_def)
  have p: "provider e (api_key ?fred) sid (now e - int (quarters ws * 91)) (now e) = Inr []"
    using assms(3) by simp
  obtain dd w2 where g: "get_economic_data e ?fred sid ?sel u (quarters ws) ?w1 = (dd, w2)"
    by (cases "get_economic_data e ?fred sid ?sel u (quarters ws) ?w1")
  from get_economic_data_empty [OF p, of ?sel u ?w1] g
  have dd: "dd = None" and uiw: "ui w2 = ui ?w1"
    and rq: "requests w2 = requests ?w1 @ [(sid, now e - int (quarters ws * 91), now e)]"
    by simp_all
  have m: "main e ws world0 = footer (no_data ?sel (log_pull ?sel None w2))"
    by (simp add: main_def main_body_def init show_indicator_def Let_def assms(2) g dd
        show_result_def)
  have "ui (log_pull ?sel None w2) = ui (sidebar (page_header world0))"
    by (simp add: log_pull_def uiw sidebar_def page_header_def)
  moreover have "requests (log_pull ?sel None w2) = [(sid, now e - int (quarters ws * 91), now e)]"
    by (simp add: log_pull_def rq sidebar_def page_header_def world0_def)
  ultimately show ?thesis using m by blast
qed

lemma no_data_outcome:
  assumes "ui w2 = ui (sidebar (page_header world0))"
  shows "error_messages (footer (no_data sel w2)) =
           [''No data available for '' @ sel @ ''. Please try another indicator.'']
       \<and> charts (footer (no_data sel w2)) = []"
  by (simp add: footer_def no_data_def assms sidebar_def page_header_def world0_def
      error_messages_def charts_def)

text \<open>
  C4, amended. When the credential is present, the selected indicator is in the
  catalogue and the provider answers the request with an empty series, the run shows
  exactly one error message, \<open>No data available for T. Please try another indicator.\<close>
  where \<open>T\<close> is the name of the selected indicator, shows no chart, and has sent the
  one request.
\<close>

theorem empty_series_no_data:
  assumes "\<not> not_key (fred_api_key e)"
    and "map_of indicators (selected_indicator ws) = Some (sid, u)"
    and "provider e (the (fred_api_key e)) sid (now e - int (quarters ws * 91)) (now e) = Inr []"
  shows "error_messages (main e ws world0) =
           [''No data available for '' @ selected_indicator ws @ ''. Please try another indicator.'']
       \<and> charts (main e ws world0) = []
       \<and> requests (main e ws world0) = [(sid, now e - int (quarters ws * 91), now e)]"
proof -
  from main_empty_series [OF assms] obtain w2 where
    w2: "ui w2 = ui (sidebar (page_header world0))"
        "requests w2 = [(sid, now e - int (quarters ws * 91), now e)]"
        "main e ws world0 = footer (no_data (selected_indicator ws) w2)"
    by blast
  show ?thesis
    unfolding w2(3) using no_data_outcome [OF w2(1)] w2(2)
    by (simp add: footer_def no_data_def)
qed

lemma unrate_empty_hyps:
  "\<not> not_key (fred_api_key env_empty)"
  "map_of indicators (selected_indicator unrate_widgets) = Some (''UNRATE'', ''Percent'')"
  "provider env_empty (the (fred_api_key env_empty)) ''UNRATE''
     (now env_empty - int (quarters unrate_widgets * 91)) (now env_empty) = Inr []"
  by (simp_all add: env_empty_def not_key_def unrate_widgets_def indicators_def)

theorem empty_series_no_data_witness:
  "\<not> not_key (fred_api_key env_empty)
   \<and> map_of indicators (selected_indicator unrate_widgets) = Some (''UNRATE'', ''Percent'')
   \<and> provider env_empty (the (fred_api_key env_empty)) ''UNRATE''
       (now env_empty - int (quarters unrate_widgets * 91)) (now env_empty) = Inr []
   \<and> charts (main env_empty unrate_widgets world0) = []
   \<and> requests (main env_empty unrate_widgets world0) = [(''UNRATE'', 738272, 739000)]"
  using unrate_empty_hyps empty_series_no_data [OF unrate_empty_hyps]
  by (simp add: env_empty_def unrate_widgets_def)

text \<open>
  C4, as stated, fails: for the indicator \<open>Unemployment Rate\<close>, whose series
  identifier is \<open>UNRATE\<close>, and a provider that returns an empty series, the message
  shown names the indicator, and \<open>No data available for UNRATE\<close> is no part of it.
\<close>

theorem no_data_message_counterexample:
  "map_of indicators (selected_indicator unrate_widgets) = Some (''UNRATE'', ''Percent'')
   \<and> provider env_empty (the (fred_api_key env_empty)) ''UNRATE''
       (now env_empty - int (quarters unrate_widgets * 91)) (now env_empty) = Inr []
   \<and> error_messages (main env_empty unrate_widgets world0) =
       [''No data available for Unemployment Rate. Please try another indicator.'']
   \<and> \<not> sublist ''No data available for UNRATE''
         ''No data available for Unemployment Rate. Please try another indicator.''"
proof -
  from main_empty_series [OF unrate_empty_hyps] obtain w2 where
    w2: "ui w2 = ui (sidebar (page_header world0))"
        "main env_empty unrate_widgets world0 = footer (no_data (selected_indicator unrate_widgets) w2)"
    by blast
  have "error_messages (main env_empty unrate_widgets world0) =
       [''No data available for Unemployment Rate. Please try another indicator.'']"
    unfolding w2(2) using no_data_outcome [OF w2(1), of "selected_indicator unrate_widgets"]
    by (simp add: unrate_widgets_def)
  moreover have "\<not> sublist ''No data available for UNRATE''
         ''No data available for Unemployment Rate. Please try another indicator.''"
    by (simp add: sublist_code(3))
  ultimately show ?thesis using unrate_empty_hyps by simp
qed

section \<open>The fetch\<close>

text \<open>
  C10. Whatever the provider does, a result of \<^verbatim>\<open>get_economic_data\<close> that is not
  \<^verbatim>\<open>None\<close> holds a table of at least one row.
\<close>

theorem get_economic_data_nonempty:
  assumes "fst (get_economic_data e fred sid ttl u q w) = Some d"
  shows "data d \<noteq> [] \<and> 1 \<le> length (data d)"
  using assms
  by (auto simp: get_economic_data_def Let_def Suc_le_eq split: prod.splits sum.splits if_splits)

theorem get_economic_data_nonempty_witness:
  "fst (get_economic_data env_one gdp_client ''GDP'' ''Gross Domestic Product (GDP)''
          ''Billions of Dollars'' 8 world0) =
     Some \<lparr>data = [mk_row 2024 1 3.5], title = ''Gross Domestic Product (GDP)'',
           units = ''Billions of Dollars''\<rparr>
   \<and> data \<lparr>data = [mk_row 2024 1 3.5], title = ''Gross Domestic Product (GDP)'',
           units = ''Billions of Dollars''\<rparr> \<noteq> []"
proof -
  have h: "fst (get_economic_data env_one gdp_client ''GDP'' ''Gross Domestic Product (GDP)''
          ''Billions of Dollars'' 8 world0) =
     Some \<lparr>data = [mk_row 2024 1 3.5], title = ''Gross Domestic Product (GDP)'',
           units = ''Billions of Dollars''\<rparr>"
    by (simp add: get_economic_data_def get_series_def Let_def env_one_def mk_row_def)
  show ?thesis
    using h get_economic_data_nonempty [OF h] by simp
qed

section \<open>The chart\<close>

lemma str_nat_digit: "n < 10 \<Longrightarrow> str_nat n = [digit_char n]"
  by (simp add: str_nat.simps)

text \<open>
  C7, as stated, fails: for the style \<open>Scatter\<close> the fallback figure carries the
  y-axis label, in its labels and as its y-axis title, the same one the figure of the
  style \<open>Line\<close> has.
\<close>

theorem create_chart_fallback_counterexample:
  "fst (create_chart two_rows ''Scatter'' world0) =
     Some \<lparr>kind = PxLine, fig_x = ''Quarter'', fig_y = ''Value'',
           fig_title = ''Real GDP - Last 2 Quarters'',
           labels = [(''Value'', ''Real GDP (Billions of Chained 2017 Dollars)''), (''Quarter'', [])],
           markers = False, color_discrete_sequence = None,
           xaxis_title = [], yaxis_title = ''Real GDP (Billions of Chained 2017 Dollars)'',
           template = ''plotly_white'', height = Some 500\<rparr>
   \<and> yaxis_title (the (fst (create_chart two_rows ''Line'' world0))) =
       ''Real GDP (Billions of Chained 2017 Dollars)''"
  by (simp add: create_chart_def Let_def two_rows_def px_def update_layout_def str_nat_digit
      digit_char_def px_label_def)

text \<open>
  C7, amended. For every chart style outside Line, Bar and Area the chart is the figure
  of the style Line with the markers switched off: a line figure with the same title,
  the same labels and the same y-axis title \<open>title (units)\<close>.
\<close>

theorem create_chart_fallback:
  assumes "ct \<notin> set chart_types"
  shows "\<exists>f l. fst (create_chart d ct w) = Some f \<and> fst (create_chart d ''Line'' w) = Some l
       \<and> f = l\<lparr>markers := False\<rparr> \<and> markers l \<and> kind f = PxLine
       \<and> map_of (labels f) ''Value'' = Some (title d @ '' ('' @ units d @ '')'')
       \<and> yaxis_title f = title d @ '' ('' @ units d @ '')''
       \<and> yaxis_title l = yaxis_title f"
  using assms
  by (simp add: create_chart_def Let_def chart_types_def px_def update_layout_def)

theorem create_chart_fallback_witness:
  "''Scatter'' \<notin> set chart_types
   \<and> (\<exists>f. fst (create_chart two_rows ''Scatter'' world0) = Some f \<and> kind f = PxLine
         \<and> \<not> markers f
         \<and> yaxis_title f = ''Real GDP (Billions of Chained 2017 Dollars)'')"
proof -
  have h: "''Scatter'' \<notin> set chart_types" by (simp add: chart_types_def)
  from create_chart_fallback [OF h, of two_rows world0] obtain f l where
    "fst (create_chart two_rows ''Scatter'' world0) = Some f" "f = l\<lparr>markers := False\<rparr>"
    "kind f = PxLine" "yaxis_title f = title two_rows @ '' ('' @ units two_rows @ '')''"
    by blast
  then show ?thesis using h by (simp add: two_rows_def)
qed

section \<open>The logging configuration\<close>

text \<open>
  C9, as stated, fails in its daily rotation: a logger set up when the clock shows
  2024-12-31 writes a record that is emitted when the clock shows 2025-01-01 to the file
  of 2024-12-31, after the first record of the set-up; the file of 2025-01-01 is another
  one.
\<close>

theorem daily_rotation_counterexample:
  "fst (setup_logging_run new_years_eve) = setup_logging ''2024-12-31''
   \<and> written (logger_emit (fst (setup_logging_run new_years_eve)) DEBUG ''first line of the new year''
               ((snd (setup_logging_run new_years_eve))\<lparr>clock_date := ''2025-01-01''\<rparr>)) =
       [(''logs/app_2024-12-31.log'', INFO, ''Logging initialized''),
        (''logs/app_2024-12-31.log'', DEBUG, ''first line of the new year'')]
   \<and> log_file ''2025-01-01'' \<noteq> ''logs/app_2024-12-31.log''"
  by (simp add: setup_logging_run_def new_years_eve_def Let_def logger_emit_def handler_emit_def
      setup_logging_def console_handler_def file_handler_def log_file_def INFO_def DEBUG_def)

text \<open>
  C9, amended. A record of level INFO or above goes to the console and to the file, a
  record of level DEBUG up to INFO goes to the file only, and anything below is dropped.
  The file sink rotates by size at \<open>10 * 1024 * 1024\<close> bytes and keeps 5 backups. Its
  name carries the date the clock showed when the logging was set up, and every record
  is written to that file whatever the clock shows when the record is emitted.
\<close>

theorem setup_logging_sinks:
  "receivers (setup_logging cd) lvl =
     (if INFO \<le> lvl then [StreamHandler, RotatingFileHandler (log_file cd) 10485760 5]
      else if DEBUG \<le> lvl then [RotatingFileHandler (log_file cd) 10485760 5]
      else [])
   \<and> log_file cd = ''logs/app_'' @ cd @ ''.log''
   \<and> (log_file cd = log_file cd' \<longleftrightarrow> cd = cd')
   \<and> fst (setup_logging_run lw) = setup_logging (clock_date lw)
   \<and> logger_emit (setup_logging cd) lvl m lw =
       lw\<lparr>console := (if INFO \<le> lvl then console lw @ [(lvl, m)] else console lw),
          written := (if DEBUG \<le> lvl then written lw @ [(log_file cd, lvl, m)] else written lw)\<rparr>"
  by (simp add: receivers_def setup_logging_def console_handler_def file_handler_def
      log_file_def INFO_def DEBUG_def logger_emit_def handler_emit_def setup_logging_run_def Let_def)

end
